theory Spec2Isabelle
  imports Complex_Main
begin

section \<open>Data model\<close>

text \<open>
  The pipeline of \<^verbatim>\<open>10_process/src\<close> works on pandas data frames. A frame is
  modelled by the list of its column names and the list of its rows; the row label of
  every frame that reaches the code below is its position (\<^verbatim>\<open>read_csv\<close> and
  \<^verbatim>\<open>merge\<close> both produce the labels 0, 1, 2, ...), so a row label is a
  position in the list.

  A row is a record with one slot per column the code ever reads or creates: the twenty
  columns of \<^verbatim>\<open>CANONICAL_ORDER\<close> with the types of \<^verbatim>\<open>DTYPES\<close> in
  \<^verbatim>\<open>schema.py\<close>, and the columns the two merges of \<^verbatim>\<open>enrich.py\<close>
  add. A null cell (\<^verbatim>\<open>pd.NA\<close>, \<^verbatim>\<open>NaN\<close>) is \<open>None\<close>. A slot whose
  column is not in the frame's column list is never read.

  A finite \<^verbatim>\<open>float64\<close> is modelled by the real number it denotes and
  \<^verbatim>\<open>NaN\<close> by the null cell; infinities are not modelled. The rounded product of
  two floats is not fixed by the model: it is the parameter \<open>fmul\<close> of every function
  that multiplies.
\<close>

record trade =
  trade_id :: "string option"
  order_id :: "string option"
  client_id :: "string option"
  isin :: "string option"
  cusip :: "string option"
  symbol :: "string option"
  side :: "string option"
  quantity :: "int option"
  price :: "real option"
  trade_date :: "string option"
  trade_ts :: "string option"
  currency :: "string option"
  venue :: "string option"
  instrument_type :: "string option"
  liquidity_bucket :: "string option"
  desk :: "string option"
  source_system :: "string option"
  risk_tier :: "string option"
  region :: "string option"
  notional :: "real option"
  symbol_pm :: "string option"
  instrument_type_pm :: "string option"
  liq_rule_key :: "string option"
  risk_tier_x :: "string option"
  region_x :: "string option"
  risk_tier_y :: "string option"
  region_y :: "string option"

record frame =
  columns :: "string list"
  rows :: "trade list"

definition CANONICAL_ORDER :: "string list" where
  "CANONICAL_ORDER =
     [''trade_id'', ''order_id'', ''client_id'',
      ''isin'', ''cusip'', ''symbol'',
      ''side'', ''quantity'', ''price'',
      ''trade_date'', ''trade_ts'',
      ''currency'', ''venue'', ''instrument_type'',
      ''liquidity_bucket'', ''desk'', ''source_system'',
      ''risk_tier'', ''region'', ''notional'']"

text \<open>
  The product master as \<^verbatim>\<open>_load_reference\<close> returns it: the five columns
  \<^verbatim>\<open>isin, cusip, symbol, instrument_type, liq_rule_key\<close>.
\<close>

record product =
  pm_isin :: "string option"
  pm_cusip :: "string option"
  pm_symbol :: "string option"
  pm_instrument_type :: "string option"
  pm_liq_rule_key :: "string option"

text \<open>
  The client master as \<^verbatim>\<open>_load_reference\<close> returns it. Which of the columns
  \<^verbatim>\<open>customerID\<close>, \<^verbatim>\<open>risk_tier\<close> and \<^verbatim>\<open>region\<close> it has is
  part of the value, since \<^verbatim>\<open>_enrich_client\<close> branches on it.
\<close>

record client =
  customerID :: "string option"
  cm_risk_tier :: "string option"
  cm_region :: "string option"

record client_master =
  cm_columns :: "string list"
  cm_rows :: "client list"

datatype error = IndexingError | ValueError | ZeroDivisionError

section \<open>The pandas operations the code uses\<close>

text \<open>
  \<^verbatim>\<open>left.merge(right, how="left")\<close>: the rows of the left frame in their order;
  a left row with no partner appears once with null right columns, a left row with
  several partners appears once per partner, in the right frame's order. Keys are
  compared as values, and a null key matches a null key (the pandas documentation of
  \<^verbatim>\<open>merge\<close> says so).
\<close>

definition left_join ::
  "('l \<Rightarrow> 'k) \<Rightarrow> ('r \<Rightarrow> 'k) \<Rightarrow> ('l \<Rightarrow> 'r option \<Rightarrow> 'o) \<Rightarrow> 'l list \<Rightarrow> 'r list \<Rightarrow> 'o list" where
  "left_join kl kr combine ls rs =
     concat (map (\<lambda>l. case filter (\<lambda>r. kr r = kl l) rs of
                          [] \<Rightarrow> [combine l None]
                        | m # ms \<Rightarrow> map (\<lambda>p. combine l (Some p)) (m # ms)) ls)"

text \<open>\<^verbatim>\<open>df.loc[mask]\<close> for a boolean mask with the labels of \<open>df\<close>.\<close>

definition select :: "bool list \<Rightarrow> 'a list \<Rightarrow> 'a list" where
  "select bs xs = map snd (filter fst (zip bs xs))"

text \<open>
  \<^verbatim>\<open>s.loc[mask] = rhs\<close> where \<open>rhs\<close> is a series: pandas aligns the right-hand
  side on the labels, so a masked position takes the value \<open>rhs\<close> has at that position.
\<close>

definition loc_assign :: "bool list \<Rightarrow> 'a list \<Rightarrow> 'a list \<Rightarrow> 'a list" where
  "loc_assign bs rhs xs = map (\<lambda>(m, v, x). if m then v else x) (zip bs (zip rhs xs))"

text \<open>
  \<^verbatim>\<open>out.loc[mask, cols] = arr.values\<close> where the right-hand side is a bare array:
  no labels, so the values go to the masked rows by position, the first value row to the
  first masked row.
\<close>

fun assign_values :: "('a \<Rightarrow> 'v \<Rightarrow> 'a) \<Rightarrow> bool list \<Rightarrow> 'v list \<Rightarrow> 'a list \<Rightarrow> 'a list" where
  "assign_values upd (True # ms) (v # vs) (x # xs) = upd x v # assign_values upd ms vs xs"
| "assign_values upd (False # ms) vs (x # xs) = x # assign_values upd ms vs xs"
| "assign_values upd ms vs xs = xs"

text \<open>
  \<^verbatim>\<open>a.combine_first(b)\<close>: on the union of the labels, the value of \<open>a\<close> where it
  is not null, else the value of \<open>b\<close>.
\<close>

fun combine_first :: "'a option list \<Rightarrow> 'a option list \<Rightarrow> 'a option list" where
  "combine_first [] ys = ys"
| "combine_first xs [] = xs"
| "combine_first (x # xs) (y # ys) =
     (case x of None \<Rightarrow> y | Some v \<Rightarrow> Some v) # combine_first xs ys"

text \<open>
  \<^verbatim>\<open>df[col] = s\<close> for a series \<open>s\<close>: aligned on the labels of \<open>df\<close>; a label
  that \<open>s\<close> lacks gets null, a label only \<open>s\<close> has is dropped.
\<close>

definition assign_column ::
  "('a \<Rightarrow> 'v option \<Rightarrow> 'a) \<Rightarrow> 'a list \<Rightarrow> 'v option list \<Rightarrow> 'a list" where
  "assign_column upd df s =
     map (\<lambda>(r, v). upd r v) (zip df (s @ replicate (length df - length s) None))"

section \<open>Enrichment (\<^verbatim>\<open>p02_enrichment/enrich.py\<close>)\<close>

text \<open>
  \<^verbatim>\<open>_enrich_product\<close>. The batch has the canonical columns, so \<^verbatim>\<open>symbol\<close>
  and \<^verbatim>\<open>instrument_type\<close> are in both frames of the first merge. With
  \<^verbatim>\<open>suffixes=("", "_pm")\<close> the batch's columns keep their names and the product
  master's arrive as \<^verbatim>\<open>symbol_pm\<close> and \<^verbatim>\<open>instrument_type_pm\<close>;
  \<^verbatim>\<open>liq_rule_key\<close> is in the product master only and keeps its name.
\<close>

definition attach_pm :: "trade \<Rightarrow> product option \<Rightarrow> trade" where
  "attach_pm r m =
     r\<lparr>symbol_pm := (case m of None \<Rightarrow> None | Some p \<Rightarrow> pm_symbol p),
       instrument_type_pm := (case m of None \<Rightarrow> None | Some p \<Rightarrow> pm_instrument_type p),
       liq_rule_key := (case m of None \<Rightarrow> None | Some p \<Rightarrow> pm_liq_rule_key p)\<rparr>"

definition cusip_values ::
  "trade \<Rightarrow> product option \<Rightarrow> string option \<times> string option \<times> string option" where
  "cusip_values r m =
     (case m of None \<Rightarrow> (None, None, None)
      | Some p \<Rightarrow> (pm_symbol p, pm_instrument_type p, pm_liq_rule_key p))"

definition set_cusip_values ::
  "trade \<Rightarrow> string option \<times> string option \<times> string option \<Rightarrow> trade" where
  "set_cusip_values r v =
     (case v of (s, it, k) \<Rightarrow> r\<lparr>symbol := s, instrument_type := it, liq_rule_key := k\<rparr>)"

text \<open>
  The body of \<^verbatim>\<open>if need_cusip.any():\<close>. The mask has the labels of \<open>out\<close>;
  indexing \<open>df\<close> with it reindexes the mask to the labels of \<open>df\<close> and raises
  \<^verbatim>\<open>IndexingError\<close> when a label of \<open>df\<close> is not among them. Assigning an
  array with another number of rows than the mask selects raises
  \<^verbatim>\<open>ValueError\<close>. (The two numbers can differ only after the first merge has
  multiplied rows or when a CUSIP has several entries; whether numpy would instead spread a
  single value row over several masked rows there is not modelled, and no result below
  depends on it.)
\<close>

definition cusip_fill ::
  "trade list \<Rightarrow> product list \<Rightarrow> bool list \<Rightarrow> trade list \<Rightarrow> error + trade list" where
  "cusip_fill df pm need_cusip out =
     (if length need_cusip < length df then Inl IndexingError
      else
        let by_cusip = left_join cusip pm_cusip cusip_values
                         (select (take (length df) need_cusip) df) pm
        in if length by_cusip \<noteq> length (filter id need_cusip) then Inl ValueError
           else Inr (assign_values set_cusip_values need_cusip by_cusip out))"

definition enrich_product :: "trade list \<Rightarrow> product list \<Rightarrow> error + frame" where
  "enrich_product df pm =
     (let out = left_join isin pm_isin attach_pm df pm;
          need_cusip = map (\<lambda>r. symbol r = None \<and> cusip r \<noteq> None) out
      in case (if True \<in> set need_cusip then cusip_fill df pm need_cusip out else Inr out) of
           Inl e \<Rightarrow> Inl e
         | Inr out1 \<Rightarrow>
             let out2 = assign_column (\<lambda>r v. r\<lparr>instrument_type := v\<rparr>) out1
                          (combine_first (map instrument_type out1) (map instrument_type df));
                 out3 = assign_column (\<lambda>r v. r\<lparr>symbol := v\<rparr>) out2
                          (combine_first (map symbol out2) (map symbol df))
             in Inr \<lparr>columns = CANONICAL_ORDER @ [''symbol_pm'', ''instrument_type_pm'', ''liq_rule_key''],
                     rows = out3\<rparr>)"

text \<open>
  \<^verbatim>\<open>_enrich_client\<close>. The merge uses the default suffixes: a column of the
  client master that the batch has too splits into \<^verbatim>\<open>_x\<close> (the batch's) and
  \<^verbatim>\<open>_y\<close> (the master's), and the unsuffixed column, now missing, is created
  null afterwards.
\<close>

definition attach_cm :: "bool \<Rightarrow> bool \<Rightarrow> bool \<Rightarrow> bool \<Rightarrow> trade \<Rightarrow> client option \<Rightarrow> trade" where
  "attach_cm has_rt has_rg both_rt both_rg r m =
     (let rt = (case m of None \<Rightarrow> None | Some c \<Rightarrow> cm_risk_tier c);
          rg = (case m of None \<Rightarrow> None | Some c \<Rightarrow> cm_region c);
          r1 = (if both_rt then r\<lparr>risk_tier_x := risk_tier r, risk_tier_y := rt, risk_tier := None\<rparr>
                else if has_rt then r\<lparr>risk_tier := rt\<rparr> else r)
      in if both_rg then r1\<lparr>region_x := region r1, region_y := rg, region := None\<rparr>
         else if has_rg then r1\<lparr>region := rg\<rparr> else r1)"

definition rename_column :: "string \<Rightarrow> string \<Rightarrow> string list \<Rightarrow> string list" where
  "rename_column old new cs = map (\<lambda>c. if c = old then new else c) cs"

definition add_column :: "string \<Rightarrow> string list \<Rightarrow> string list" where
  "add_column c cs = (if c \<in> set cs then cs else cs @ [c])"

definition enrich_client :: "frame \<Rightarrow> client_master \<Rightarrow> frame" where
  "enrich_client df cm =
     (if ''customerID'' \<notin> set (cm_columns cm) then
        \<lparr>columns = add_column ''region'' (add_column ''risk_tier'' (columns df)),
         rows = map (\<lambda>r. r\<lparr>risk_tier := None, region := None\<rparr>) (rows df)\<rparr>
      else
        let has_rt = ''risk_tier'' \<in> set (cm_columns cm);
            has_rg = ''region'' \<in> set (cm_columns cm);
            both_rt = has_rt \<and> ''risk_tier'' \<in> set (columns df);
            both_rg = has_rg \<and> ''region'' \<in> set (columns df);
            left_cols = (if both_rg then rename_column ''region'' ''region_x'' else id)
                          ((if both_rt then rename_column ''risk_tier'' ''risk_tier_x'' else id)
                             (columns df));
            right_cols = (if has_rt then [if both_rt then ''risk_tier_y'' else ''risk_tier''] else [])
                         @ (if has_rg then [if both_rg then ''region_y'' else ''region''] else [])
        in \<lparr>columns = add_column ''region'' (add_column ''risk_tier'' (left_cols @ right_cols)),
            rows = left_join client_id customerID (attach_cm has_rt has_rg both_rt both_rg)
                     (rows df) (cm_rows cm)\<rparr>)"

text \<open>
  \<^verbatim>\<open>_derive_notional\<close>: the column is assigned for every row. A null operand
  (\<^verbatim>\<open>NaN\<close> after \<^verbatim>\<open>astype("float64")\<close>) gives a null product.
\<close>

definition float_product :: "(real \<Rightarrow> real \<Rightarrow> real) \<Rightarrow> int option \<Rightarrow> real option \<Rightarrow> real option" where
  "float_product fmul q p =
     (case (q, p) of (Some a, Some b) \<Rightarrow> Some (fmul (real_of_int a) b) | _ \<Rightarrow> None)"

definition derive_notional :: "(real \<Rightarrow> real \<Rightarrow> real) \<Rightarrow> frame \<Rightarrow> frame" where
  "derive_notional fmul df =
     df\<lparr>columns := add_column ''notional'' (columns df),
        rows := assign_column (\<lambda>r v. r\<lparr>notional := v\<rparr>) (rows df)
                  (map (\<lambda>r. float_product fmul (quantity r) (price r)) (rows df))\<rparr>"

text \<open>\<^verbatim>\<open>_fill_liquidity\<close>, with its inner function \<^verbatim>\<open>rule\<close>.\<close>

definition rule :: "trade \<Rightarrow> string option" where
  "rule row =
     (case (instrument_type row, notional row) of
        (Some it, Some n) \<Rightarrow>
          if it = ''BOND'' then
            (if n \<ge> 5000000 then Some ''HIGH''
             else if n \<ge> 1000000 then Some ''MED''
             else Some ''LOW'')
          else if it \<in> set [''SWAP'', ''FUTURE'', ''OPTION'', ''REPO''] then
            (if n \<ge> 10000000 then Some ''HIGH''
             else if n \<ge> 2000000 then Some ''MED''
             else Some ''LOW'')
          else None
      | _ \<Rightarrow> None)"

definition fill_liquidity :: "frame \<Rightarrow> frame" where
  "fill_liquidity df =
     (let src = map liquidity_bucket (rows df);
          needs_fill = map (\<lambda>(a, b). a \<and> b)
                         (zip (map (\<lambda>v. v = None) src)
                              (map (\<lambda>r. liq_rule_key r \<noteq> None) (rows df)));
          filled = loc_assign needs_fill (map liq_rule_key (rows df)) src;
          still_missing = map (\<lambda>v. v = None) filled;
          filled1 = (if True \<in> set still_missing
                     then loc_assign still_missing (map rule (rows df)) filled
                     else filled)
      in df\<lparr>rows := assign_column (\<lambda>r v. r\<lparr>liquidity_bucket := v\<rparr>) (rows df) filled1\<rparr>)"

definition drop_column :: "string \<Rightarrow> frame \<Rightarrow> frame" where
  "drop_column c df = df\<lparr>columns := filter (\<lambda>x. x \<noteq> c) (columns df)\<rparr>"

text \<open>
  \<^verbatim>\<open>run_enrichment\<close>, with the two reference tables as arguments instead of
  reading them from the configured files.
\<close>

definition run_enrichment ::
  "(real \<Rightarrow> real \<Rightarrow> real) \<Rightarrow> trade list \<Rightarrow> product list \<Rightarrow> client_master \<Rightarrow> error + frame" where
  "run_enrichment fmul df_ingested pm cm =
     (case enrich_product df_ingested pm of
        Inl e \<Rightarrow> Inl e
      | Inr df1 \<Rightarrow>
          let df2 = enrich_client df1 cm;
              df3 = derive_notional fmul df2;
              df4 = fill_liquidity df3
          in Inr (if ''liq_rule_key'' \<in> set (columns df4)
                  then drop_column ''liq_rule_key'' df4 else df4))"

section \<open>Validation rules (\<^verbatim>\<open>p03_validation/rules.py\<close>)\<close>

record breach =
  rule_id :: string
  severity :: string
  reason :: string
  row_index :: nat
  keys :: string

definition ENUM_SIDE :: "string list" where
  "ENUM_SIDE = [''BUY'', ''SELL'']"

definition ENUM_INSTRUMENT :: "string list" where
  "ENUM_INSTRUMENT = [''BOND'', ''SWAP'', ''FUTURE'', ''OPTION'', ''REPO'']"

definition ENUM_CCY :: "string list" where
  "ENUM_CCY = [''USD'', ''EUR'', ''GBP'', ''JPY'']"

text \<open>\<^verbatim>\<open>str(v)\<close> of a cell of a string column; \<^verbatim>\<open>str(pd.NA)\<close> is \<^verbatim>\<open><NA>\<close>.\<close>

definition str_cell :: "string option \<Rightarrow> string" where
  "str_cell v = (case v of None \<Rightarrow> ''<NA>'' | Some s \<Rightarrow> s)"

text \<open>
  \<^verbatim>\<open>_breaches_df\<close>. Every caller passes labels of \<open>df\<close> itself, so
  \<^verbatim>\<open>df.at[i, ...]\<close> finds its row.
\<close>

definition breaches_df :: "string \<Rightarrow> string \<Rightarrow> string \<Rightarrow> nat list \<Rightarrow> frame \<Rightarrow> breach list" where
  "breaches_df rid sev rsn idx df =
     (if length idx = 0 then []
      else map (\<lambda>i.
             let tid = (if ''trade_id'' \<in> set (columns df) then str_cell (trade_id (rows df ! i)) else ''NA'');
                 oid = (if ''order_id'' \<in> set (columns df) then str_cell (order_id (rows df ! i)) else ''NA'')
             in \<lparr>rule_id = rid, severity = sev, reason = rsn, row_index = i,
                 keys = ''trade_id='' @ tid @ ''|order_id='' @ oid\<rparr>) idx)"

text \<open>\<^verbatim>\<open>df.index\<close> and \<^verbatim>\<open>df[cond].index\<close>.\<close>

definition index :: "frame \<Rightarrow> nat list" where
  "index df = [0..<length (rows df)]"

definition where_idx :: "frame \<Rightarrow> (trade \<Rightarrow> bool) \<Rightarrow> nat list" where
  "where_idx df cond = filter (\<lambda>i. cond (rows df ! i)) (index df)"

text \<open>\<^verbatim>\<open>Index.union\<close>: the labels of both, each once, sorted.\<close>

definition index_union :: "nat list \<Rightarrow> nat list \<Rightarrow> nat list" where
  "index_union a b = sort (remdups (a @ b))"

text \<open>\<^verbatim>\<open>df[col].isna()\<close> on a row, for the columns \<^verbatim>\<open>rule_mandatory\<close> reads.\<close>

definition isna_col :: "string \<Rightarrow> trade \<Rightarrow> bool" where
  "isna_col col r =
     (if col = ''trade_id'' then trade_id r = None
      else if col = ''order_id'' then order_id r = None
      else if col = ''client_id'' then client_id r = None
      else if col = ''side'' then side r = None
      else if col = ''quantity'' then quantity r = None
      else if col = ''price'' then price r = None
      else if col = ''trade_ts'' then trade_ts r = None
      else if col = ''instrument_type'' then instrument_type r = None
      else True)"

definition required :: "string list" where
  "required = [''trade_id'', ''order_id'', ''client_id'', ''side'', ''quantity'', ''price'',
               ''trade_ts'', ''instrument_type'']"

text \<open>The loop of \<^verbatim>\<open>rule_mandatory\<close>; the first branch is its \<^verbatim>\<open>break\<close>.\<close>

fun mandatory_loop :: "frame \<Rightarrow> string list \<Rightarrow> nat list \<Rightarrow> nat list" where
  "mandatory_loop df [] missing_idx = missing_idx"
| "mandatory_loop df (col # cols) missing_idx =
     (if col \<notin> set (columns df) then index df
      else mandatory_loop df cols (index_union missing_idx (where_idx df (isna_col col))))"

definition rule_mandatory :: "frame \<Rightarrow> breach list" where
  "rule_mandatory df =
     breaches_df ''R001_MANDATORY'' ''CRITICAL'' ''Mandatory fields must not be null''
       (mandatory_loop df required []) df"

definition not_in_enum :: "string list \<Rightarrow> string option \<Rightarrow> bool" where
  "not_in_enum enum v = (case v of None \<Rightarrow> False | Some s \<Rightarrow> s \<notin> set enum)"

definition rule_domain_enums :: "frame \<Rightarrow> breach list" where
  "rule_domain_enums df =
     (let idx0 = [];
          idx1 = (if ''side'' \<in> set (columns df)
                  then index_union idx0 (where_idx df (\<lambda>r. not_in_enum ENUM_SIDE (side r)))
                  else idx0);
          idx2 = (if ''instrument_type'' \<in> set (columns df)
                  then index_union idx1
                         (where_idx df (\<lambda>r. not_in_enum ENUM_INSTRUMENT (instrument_type r)))
                  else idx1);
          idx3 = (if ''currency'' \<in> set (columns df)
                  then index_union idx2 (where_idx df (\<lambda>r. not_in_enum ENUM_CCY (currency r)))
                  else idx2)
      in breaches_df ''R002_ENUMS'' ''HIGH'' ''Value not in allowed enumerations'' idx3 df)"

definition rule_numeric_positive :: "frame \<Rightarrow> breach list" where
  "rule_numeric_positive df =
     (let idx0 = [];
          idx1 = (if ''quantity'' \<in> set (columns df)
                  then index_union idx0
                         (where_idx df (\<lambda>r. case quantity r of None \<Rightarrow> False | Some q \<Rightarrow> q \<le> 0))
                  else idx0);
          idx2 = (if ''price'' \<in> set (columns df)
                  then index_union idx1
                         (where_idx df (\<lambda>r. case price r of None \<Rightarrow> False | Some p \<Rightarrow> p \<le> 0))
                  else idx1)
      in breaches_df ''R003_POSITIVE'' ''HIGH'' ''Quantity and Price must be > 0'' idx2 df)"

text \<open>
  The two compiled patterns, \<^verbatim>\<open>^[A-Z]{2}[A-Z0-9]{9}[0-9]$\<close> and
  \<^verbatim>\<open>^[A-Z0-9]{9}$\<close>, under \<^verbatim>\<open>fullmatch\<close>.
\<close>

definition upper :: "char \<Rightarrow> bool" where
  "upper c = (c \<in> set ''ABCDEFGHIJKLMNOPQRSTUVWXYZ'')"

definition digit :: "char \<Rightarrow> bool" where
  "digit c = (c \<in> set ''0123456789'')"

definition ISIN_RE :: "string \<Rightarrow> bool" where
  "ISIN_RE s =
     (length s = 12 \<and> list_all upper (take 2 s)
      \<and> list_all (\<lambda>c. upper c \<or> digit c) (take 9 (drop 2 s))
      \<and> list_all digit (drop 11 s))"

definition CUSIP_RE :: "string \<Rightarrow> bool" where
  "CUSIP_RE s = (length s = 9 \<and> list_all (\<lambda>c. upper c \<or> digit c) s)"

definition rule_identifier_format :: "frame \<Rightarrow> breach list" where
  "rule_identifier_format df =
     (let idx0 = [];
          idx1 = (if ''isin'' \<in> set (columns df)
                  then index_union idx0
                         (where_idx df (\<lambda>r. case isin r of None \<Rightarrow> False | Some s \<Rightarrow> \<not> ISIN_RE s))
                  else idx0);
          idx2 = (if ''cusip'' \<in> set (columns df)
                  then index_union idx1
                         (where_idx df (\<lambda>r. case cusip r of None \<Rightarrow> False | Some s \<Rightarrow> \<not> CUSIP_RE s))
                  else idx1)
      in breaches_df ''R004_ID_FORMAT'' ''MEDIUM'' ''Invalid ISIN/CUSIP format'' idx2 df)"

text \<open>
  \<^verbatim>\<open>rule_timestamp_sanity\<close>. Parsing with \<^verbatim>\<open>pd.to_datetime\<close> and
  comparing the dates is library code: \<open>bad_order d t\<close> is its verdict on one row, true
  when the trade date \<open>d\<close> and the timestamp \<open>t\<close> both parse and the calendar date of
  \<open>t\<close> is before \<open>d\<close>.
\<close>

definition rule_timestamp_sanity ::
  "(string option \<Rightarrow> string option \<Rightarrow> bool) \<Rightarrow> frame \<Rightarrow> breach list" where
  "rule_timestamp_sanity bad_order df =
     (let idx0 = [];
          idx1 = (if ''trade_date'' \<in> set (columns df) \<and> ''trade_ts'' \<in> set (columns df)
                  then index_union idx0 (where_idx df (\<lambda>r. bad_order (trade_date r) (trade_ts r)))
                  else idx0)
      in breaches_df ''R005_TS_SANITY'' ''MEDIUM'' ''trade_ts must be on/after trade_date'' idx1 df)"

text \<open>
  \<^verbatim>\<open>rule_notional_consistency\<close>. \<open>diff\<close> is null when an operand is, and a
  comparison with null is false.
\<close>

definition notional_diff :: "(real \<Rightarrow> real \<Rightarrow> real) \<Rightarrow> trade \<Rightarrow> real option" where
  "notional_diff fmul r =
     (case (notional r, float_product fmul (quantity r) (price r)) of
        (Some n, Some calc) \<Rightarrow> Some \<bar>n - calc\<bar>
      | _ \<Rightarrow> None)"

definition rule_notional_consistency :: "(real \<Rightarrow> real \<Rightarrow> real) \<Rightarrow> frame \<Rightarrow> breach list" where
  "rule_notional_consistency fmul df =
     (let idx0 = [];
          idx1 = (if set [''quantity'', ''price'', ''notional''] \<subseteq> set (columns df)
                  then where_idx df
                         (\<lambda>r. quantity r \<noteq> None \<and> price r \<noteq> None \<and> notional r \<noteq> None
                              \<and> (case notional_diff fmul r of None \<Rightarrow> False | Some d \<Rightarrow> d > 1 / 100))
                  else idx0)
      in breaches_df ''R006_NOTIONAL'' ''LOW''
           ''Notional differs from quantity*price (tolerance 0.01)'' idx1 df)"

text \<open>
  \<^verbatim>\<open>df.duplicated(cols, keep=False)\<close>: true on every row whose key occurs in more
  than one row; null keys count as equal.
\<close>

definition duplicated :: "(trade \<Rightarrow> 'k) \<Rightarrow> frame \<Rightarrow> trade \<Rightarrow> bool" where
  "duplicated key df r = (length (filter (\<lambda>x. key x = key r) (rows df)) > 1)"

definition rule_duplicate_keys :: "frame \<Rightarrow> breach list" where
  "rule_duplicate_keys df =
     (let idx0 = [];
          idx1 = (if ''trade_id'' \<in> set (columns df)
                  then index_union idx0 (where_idx df (duplicated trade_id df))
                  else idx0);
          cols = [''order_id'', ''trade_ts'', ''quantity'', ''price''];
          idx2 = (if list_all (\<lambda>c. c \<in> set (columns df)) cols
                  then index_union idx1
                         (where_idx df
                            (duplicated (\<lambda>r. (order_id r, trade_ts r, quantity r, price r)) df))
                  else idx1)
      in breaches_df ''R007_DUPLICATES'' ''CRITICAL''
           ''Duplicate trade_id or (order_id,trade_ts,quantity,price) collision'' idx2 df)"

definition rules ::
  "(real \<Rightarrow> real \<Rightarrow> real) \<Rightarrow> (string option \<Rightarrow> string option \<Rightarrow> bool) \<Rightarrow> (frame \<Rightarrow> breach list) list" where
  "rules fmul bad_order =
     [rule_mandatory,
      rule_domain_enums,
      rule_numeric_positive,
      rule_identifier_format,
      rule_timestamp_sanity bad_order,
      rule_notional_consistency fmul,
      rule_duplicate_keys]"

definition run_all_rules ::
  "(real \<Rightarrow> real \<Rightarrow> real) \<Rightarrow> (string option \<Rightarrow> string option \<Rightarrow> bool) \<Rightarrow> frame \<Rightarrow> breach list" where
  "run_all_rules fmul bad_order df =
     (let out = map (\<lambda>r. r df) (rules fmul bad_order);
          out1 = filter (\<lambda>b. length b > 0) out
      in if out1 \<noteq> [] then concat out1 else breaches_df ''NA'' ''NA'' ''NA'' [] df)"

section \<open>Validation orchestrator (\<^verbatim>\<open>p03_validation/validator.py\<close>)\<close>

record metrics =
  input_rows :: nat
  passed_rows :: nat
  failed_rows :: nat
  breach_count :: nat
  pass_rate_pct :: real

text \<open>
  What \<^verbatim>\<open>run_validation\<close> computes: the two parts of the batch, each row with
  its label, the breach ledger and the metrics. The files it writes and the clock it
  reads are left out.
\<close>

record run_result =
  df_passed :: "(nat \<times> trade) list"
  df_failed :: "(nat \<times> trade) list"
  breaches :: "breach list"
  metrics :: metrics

text \<open>Python's \<^verbatim>\<open>/\<close> on numbers.\<close>

definition truediv :: "real \<Rightarrow> real \<Rightarrow> error + real" where
  "truediv a b = (if b = 0 then Inl ZeroDivisionError else Inr (a / b))"

text \<open>\<^verbatim>\<open>round(x, 2)\<close>: to the nearest hundredth, a tie to the even one.\<close>

definition round2 :: "real \<Rightarrow> real" where
  "round2 x =
     (let y = x * 100; f = \<lfloor>y\<rfloor>; d = y - of_int f
      in of_int (if d < 1 / 2 then f else if d > 1 / 2 then f + 1
                 else if even f then f else f + 1) / 100)"

definition run_validation ::
  "(real \<Rightarrow> real \<Rightarrow> real) \<Rightarrow> (string option \<Rightarrow> string option \<Rightarrow> bool) \<Rightarrow> frame \<Rightarrow> error + run_result" where
  "run_validation fmul bad_order df_enriched =
     (let bs = run_all_rules fmul bad_order df_enriched;
          failed_idx = (if length bs \<noteq> 0 then set (map row_index bs) else {});
          passed_mask = map (\<lambda>i. i \<notin> failed_idx) (index df_enriched);
          labelled = zip (index df_enriched) (rows df_enriched);
          passed = select passed_mask labelled;
          failed = select (map Not passed_mask) labelled
      in case truediv (100 * real (length passed)) (real (max 1 (length (rows df_enriched)))) of
           Inl e \<Rightarrow> Inl e
         | Inr rate \<Rightarrow>
             Inr \<lparr>df_passed = passed, df_failed = failed, breaches = bs,
                  metrics = \<lparr>input_rows = length (rows df_enriched),
                              passed_rows = length passed,
                              failed_rows = length failed,
                              breach_count = length bs,
                              pass_rate_pct = round2 rate\<rparr>\<rparr>)"

section \<open>The properties, in the specification's terms\<close>

text \<open>
  The precedence of the liquidity bucket, written from the specification (section 4.1):
  an existing bucket, else the hint \<^verbatim>\<open>liq_rule_key\<close>, else the thresholds of the
  instrument type on the notional, else null.
\<close>

definition threshold_bucket :: "real \<Rightarrow> real \<Rightarrow> real \<Rightarrow> string" where
  "threshold_bucket high med n =
     (if n \<ge> high then ''HIGH'' else if n \<ge> med then ''MED'' else ''LOW'')"

definition bucket_by_precedence :: "trade \<Rightarrow> string option" where
  "bucket_by_precedence r =
     (if liquidity_bucket r \<noteq> None then liquidity_bucket r
      else if liq_rule_key r \<noteq> None then liq_rule_key r
      else if instrument_type r = None \<or> notional r = None then None
      else if instrument_type r = Some ''BOND''
        then Some (threshold_bucket 5000000 1000000 (the (notional r)))
      else if the (instrument_type r) \<in> {''SWAP'', ''FUTURE'', ''OPTION'', ''REPO''}
        then Some (threshold_bucket 10000000 2000000 (the (notional r)))
      else None)"

text \<open>The eight mandatory fields, as the specification lists them for R001_MANDATORY.\<close>

definition any_mandatory_null :: "trade \<Rightarrow> bool" where
  "any_mandatory_null r =
     (trade_id r = None \<or> order_id r = None \<or> client_id r = None \<or> side r = None
      \<or> quantity r = None \<or> price r = None \<or> trade_ts r = None \<or> instrument_type r = None)"

text \<open>
  The partition as the specification words it (section 4.3): given the set of row references
  that carry a breach, a row is passed when its reference is not in the set and failed when
  it is.
\<close>

definition passed_of :: "nat set \<Rightarrow> frame \<Rightarrow> (nat \<times> trade) list" where
  "passed_of refs df = map (\<lambda>i. (i, rows df ! i)) (filter (\<lambda>i. i \<notin> refs) (index df))"

definition failed_of :: "nat set \<Rightarrow> frame \<Rightarrow> (nat \<times> trade) list" where
  "failed_of refs df = map (\<lambda>i. (i, rows df ! i)) (filter (\<lambda>i. i \<in> refs) (index df))"

text \<open>
  The cells of a row that enrichment never assigns: by them an output row is recognised as
  the input row it came from.
\<close>

definition row_identity ::
  "trade \<Rightarrow> (string option \<times> string option \<times> string option \<times> string option \<times> string option)
           \<times> (string option \<times> int option \<times> real option \<times> string option \<times> string option)
           \<times> (string option \<times> string option \<times> string option \<times> string option)" where
  "row_identity r =
     ((trade_id r, order_id r, client_id r, isin r, cusip r),
      (side r, quantity r, price r, trade_date r, trade_ts r),
      (currency r, venue r, desk r, source_system r))"

section \<open>Example data\<close>

text \<open>A canonical row with every cell null, and a client master with no entries.\<close>

definition null_row :: trade where
  "null_row = \<lparr>trade_id = None, order_id = None, client_id = None, isin = None, cusip = None,
     symbol = None, side = None, quantity = None, price = None, trade_date = None,
     trade_ts = None, currency = None, venue = None, instrument_type = None,
     liquidity_bucket = None, desk = None, source_system = None, risk_tier = None,
     region = None, notional = None, symbol_pm = None, instrument_type_pm = None,
     liq_rule_key = None, risk_tier_x = None, region_x = None, risk_tier_y = None,
     region_y = None\<rparr>"


text \<open>A trade with every mandatory field present and valid.\<close>

definition ex_trade :: trade where
  "ex_trade = null_row\<lparr>trade_id := Some ''T1'', order_id := Some ''O1'', client_id := Some ''C1'',
     isin := Some ''US0378331005'', side := Some ''BUY'', quantity := Some 10, price := Some 5,
     trade_date := Some ''2024-01-02'', trade_ts := Some ''2024-01-02T10:00:00Z'',
     currency := Some ''USD'', instrument_type := Some ''BOND''\<rparr>"

text \<open>A product master entry.\<close>

definition ex_product :: product where
  "ex_product = \<lparr>pm_isin = Some ''US0378331005'', pm_cusip = Some ''037833100'',
                  pm_symbol = Some ''AAPL'', pm_instrument_type = Some ''BOND'',
                  pm_liq_rule_key = Some ''HIGH''\<rparr>"

text \<open>A batch without the price column, and a batch whose second row has no side.\<close>

definition ex_no_price :: frame where
  "ex_no_price = \<lparr>columns = filter (\<lambda>c. c \<noteq> ''price'') CANONICAL_ORDER, rows = [ex_trade, ex_trade]\<rparr>"

definition ex_one_null :: frame where
  "ex_one_null = \<lparr>columns = CANONICAL_ORDER, rows = [ex_trade, ex_trade\<lparr>side := None\<rparr>, ex_trade]\<rparr>"

text \<open>
  Two valid trades; the second carries a notional of 60 for 10 at 5, which only
  R006_NOTIONAL, of severity LOW, objects to.
\<close>

definition ex_low :: frame where
  "ex_low = \<lparr>columns = CANONICAL_ORDER,
             rows = [ex_trade\<lparr>notional := Some 50\<rparr>,
                     ex_trade\<lparr>trade_id := Some ''T2'', order_id := Some ''O2'', notional := Some 60\<rparr>]\<rparr>"



section \<open>Unfolding the model on concrete data\<close>

lemmas enrich_defs =
  run_enrichment_def enrich_product_def cusip_fill_def left_join_def attach_pm_def
  cusip_values_def set_cusip_values_def select_def assign_column_def enrich_client_def
  attach_cm_def CANONICAL_ORDER_def add_column_def rename_column_def derive_notional_def
  fill_liquidity_def loc_assign_def rule_def float_product_def drop_column_def Let_def

lemmas rule_defs =
  rules_def rule_mandatory_def rule_domain_enums_def rule_numeric_positive_def
  rule_identifier_format_def rule_timestamp_sanity_def rule_notional_consistency_def
  rule_duplicate_keys_def breaches_df_def where_idx_def index_def index_union_def
  not_in_enum_def ENUM_SIDE_def ENUM_INSTRUMENT_def ENUM_CCY_def ISIN_RE_def CUSIP_RE_def
  upper_def digit_def notional_diff_def float_product_def duplicated_def required_def
  isna_col_def str_cell_def CANONICAL_ORDER_def Let_def

section \<open>Column operations on series built from the rows\<close>

lemma assign_column_map:
  "assign_column upd df (map f df) = map (\<lambda>r. upd r (f r)) df"
  by (simp add: assign_column_def zip_map2 zip_same_conv_map)


lemma loc_assign_map:
  "loc_assign (map c xs) (map f xs) (map g xs) = map (\<lambda>x. if c x then f x else g x) xs"
  by (simp add: loc_assign_def zip_map_map zip_map2 zip_map1 zip_same_conv_map)

section \<open>Derived fields\<close>


lemma rule_eq:
  "liquidity_bucket r = None \<Longrightarrow> liq_rule_key r = None \<Longrightarrow> rule r = bucket_by_precedence r"
  by (auto simp: rule_def bucket_by_precedence_def threshold_bucket_def split: option.splits)

lemma rows_fill_liquidity:
  "rows (fill_liquidity df) = map (\<lambda>r. r\<lparr>liquidity_bucket := bucket_by_precedence r\<rparr>) (rows df)"
proof -
  let ?rs = "rows df"
  let ?filled = "map (\<lambda>r. if liquidity_bucket r = None \<and> liq_rule_key r \<noteq> None
                         then liq_rule_key r else liquidity_bucket r) ?rs"
  have needs: "map (\<lambda>(a, b). a \<and> b)
                 (zip (map (\<lambda>v. v = None) (map liquidity_bucket ?rs))
                      (map (\<lambda>r. liq_rule_key r \<noteq> None) ?rs))
               = map (\<lambda>r. liquidity_bucket r = None \<and> liq_rule_key r \<noteq> None) ?rs"
    by (simp add: zip_map_map zip_same_conv_map)
  have filled: "loc_assign (map (\<lambda>r. liquidity_bucket r = None \<and> liq_rule_key r \<noteq> None) ?rs)
                  (map liq_rule_key ?rs) (map liquidity_bucket ?rs) = ?filled"
    by (rule loc_assign_map)
  have still: "map (\<lambda>v. v = None) ?filled
               = map (\<lambda>r. liquidity_bucket r = None \<and> liq_rule_key r = None) ?rs"
    by auto
  have step3: "loc_assign (map (\<lambda>r. liquidity_bucket r = None \<and> liq_rule_key r = None) ?rs)
                 (map rule ?rs) ?filled = map bucket_by_precedence ?rs"
    unfolding loc_assign_map
    by (rule map_cong[OF refl]) (auto simp: rule_eq bucket_by_precedence_def)
  have nostep3: "True \<notin> set (map (\<lambda>r. liquidity_bucket r = None \<and> liq_rule_key r = None) ?rs)
                 \<Longrightarrow> ?filled = map bucket_by_precedence ?rs"
    by (rule map_cong[OF refl]) (auto simp: bucket_by_precedence_def)
  show ?thesis
    unfolding fill_liquidity_def Let_def needs filled still
    using step3 nostep3
    by (cases "True \<in> set (map (\<lambda>r. liquidity_bucket r = None \<and> liq_rule_key r = None) ?rs)")
       (simp_all add: assign_column_map)
qed


text \<open>
  Claim C2. For every frame, \<^verbatim>\<open>_fill_liquidity\<close> leaves in each row the bucket the
  precedence gives for that row: an existing bucket is kept; else a non-null
  \<^verbatim>\<open>liq_rule_key\<close> is adopted; else, with instrument type and notional present,
  BOND gets HIGH from 5,000,000 and MED from 1,000,000, else LOW, and SWAP, FUTURE, OPTION
  and REPO get HIGH from 10,000,000 and MED from 2,000,000, else LOW; any other or missing
  instrument type, or a missing notional, leaves the bucket null.
\<close>

theorem liquidity_precedence:
  "map liquidity_bucket (rows (fill_liquidity df)) = map bucket_by_precedence (rows df)"
  by (simp add: rows_fill_liquidity o_def)

text \<open>
  The boundary cases of the claim: a BOND with no bucket and no hint and a notional of
  exactly 5,000,000 gets HIGH, one with 4,999,999.99 gets MED; an existing HIGH survives a
  BOND notional of 1; a hint wins over the thresholds; a SWAP at 2,000,000 gets MED; an
  unknown instrument type and a missing notional leave null.
\<close>

theorem liquidity_precedence_witness:
  "map liquidity_bucket (rows (fill_liquidity
     \<lparr>columns = CANONICAL_ORDER @ [''liq_rule_key''],
      rows = [null_row\<lparr>instrument_type := Some ''BOND'', notional := Some 5000000\<rparr>,
              null_row\<lparr>instrument_type := Some ''BOND'', notional := Some (499999999 / 100)\<rparr>,
              null_row\<lparr>instrument_type := Some ''BOND'', notional := Some 1,
                       liquidity_bucket := Some ''HIGH''\<rparr>,
              null_row\<lparr>instrument_type := Some ''BOND'', notional := Some 5000000,
                       liq_rule_key := Some ''LOW''\<rparr>,
              null_row\<lparr>instrument_type := Some ''SWAP'', notional := Some 2000000\<rparr>,
              null_row\<lparr>instrument_type := Some ''EQUITY'', notional := Some 5000000\<rparr>,
              null_row\<lparr>instrument_type := Some ''BOND''\<rparr>]\<rparr>))
   = [Some ''HIGH'', Some ''MED'', Some ''HIGH'', Some ''LOW'', Some ''MED'', None, None]"
  using liquidity_precedence
    [of "\<lparr>columns = CANONICAL_ORDER @ [''liq_rule_key''],
      rows = [null_row\<lparr>instrument_type := Some ''BOND'', notional := Some 5000000\<rparr>,
              null_row\<lparr>instrument_type := Some ''BOND'', notional := Some (499999999 / 100)\<rparr>,
              null_row\<lparr>instrument_type := Some ''BOND'', notional := Some 1,
                       liquidity_bucket := Some ''HIGH''\<rparr>,
              null_row\<lparr>instrument_type := Some ''BOND'', notional := Some 5000000,
                       liq_rule_key := Some ''LOW''\<rparr>,
              null_row\<lparr>instrument_type := Some ''SWAP'', notional := Some 2000000\<rparr>,
              null_row\<lparr>instrument_type := Some ''EQUITY'', notional := Some 5000000\<rparr>,
              null_row\<lparr>instrument_type := Some ''BOND''\<rparr>]\<rparr>"]
  by (simp add: bucket_by_precedence_def threshold_bucket_def null_row_def)





section \<open>The rule battery\<close>

lemma concat_filter_nonempty: "concat (filter (\<lambda>b. b \<noteq> []) xs) = concat xs"
  by (induction xs) auto

lemma run_all_rules_concat:
  "run_all_rules fmul bad_order df = concat (map (\<lambda>r. r df) (rules fmul bad_order))"
proof -
  let ?out = "map (\<lambda>r. r df) (rules fmul bad_order)"
  show ?thesis
  proof (cases "filter (\<lambda>b. b \<noteq> []) ?out = []")
    case True
    then have "concat ?out = []"
      using concat_filter_nonempty[of ?out] by simp
    with True show ?thesis
      by (simp add: run_all_rules_def Let_def breaches_df_def)
  next
    case False
    then show ?thesis
      by (simp add: run_all_rules_def Let_def concat_filter_nonempty)
  qed
qed


lemma map_row_index_breaches_df: "map row_index (breaches_df rid sev rsn idx df) = idx"
  by (simp add: breaches_df_def o_def Let_def)

lemma sorted_distinct_filter_upt: "sorted (filter P [0..<n]) \<and> distinct (filter P [0..<n])"
  by (simp add: sorted_wrt_filter)

lemma index_union_filter:
  "index_union (filter P [0..<n]) (filter Q [0..<n]) = filter (\<lambda>i. P i \<or> Q i) [0..<n]"
proof (rule sorted_distinct_set_unique)
  show "sorted (index_union (filter P [0..<n]) (filter Q [0..<n]))"
    by (simp add: index_union_def)
  show "distinct (index_union (filter P [0..<n]) (filter Q [0..<n]))"
    by (simp add: index_union_def)
  show "sorted (filter (\<lambda>i. P i \<or> Q i) [0..<n])" "distinct (filter (\<lambda>i. P i \<or> Q i) [0..<n])"
    by (simp_all add: sorted_wrt_filter)
  show "set (index_union (filter P [0..<n]) (filter Q [0..<n])) = set (filter (\<lambda>i. P i \<or> Q i) [0..<n])"
    by (auto simp: index_union_def)
qed

lemma index_union_Nil: "index_union [] (filter Q [0..<n]) = filter Q [0..<n]"
  using index_union_filter[of "\<lambda>_. False" n Q] by simp

lemma mandatory_loop_filter:
  "mandatory_loop df cols (filter P (index df)) =
     (if set cols \<subseteq> set (columns df)
      then filter (\<lambda>i. P i \<or> (\<exists>c\<in>set cols. isna_col c (rows df ! i))) (index df)
      else index df)"
proof (induction cols arbitrary: P)
  case Nil
  then show ?case by simp
next
  case (Cons col cols)
  show ?case
  proof (cases "col \<in> set (columns df)")
    case False
    then show ?thesis by simp
  next
    case True
    have "mandatory_loop df (col # cols) (filter P (index df))
          = mandatory_loop df cols (filter (\<lambda>i. P i \<or> isna_col col (rows df ! i)) (index df))"
      using True by (simp add: where_idx_def index_def index_union_filter)
    also have "\<dots> = (if set cols \<subseteq> set (columns df)
      then filter (\<lambda>i. (P i \<or> isna_col col (rows df ! i)) \<or> (\<exists>c\<in>set cols. isna_col c (rows df ! i))) (index df)
      else index df)"
      by (rule Cons.IH)
    finally show ?thesis using True
      by (auto intro!: filter_cong)
  qed
qed

lemma required_isna: "(\<exists>c\<in>set required. isna_col c r) = any_mandatory_null r"
  by (simp add: required_def isna_col_def any_mandatory_null_def)

lemma mandatory_idx:
  "mandatory_loop df required [] =
     (if set required \<subseteq> set (columns df)
      then filter (\<lambda>i. any_mandatory_null (rows df ! i)) (index df) else index df)"
  using mandatory_loop_filter[of df required "\<lambda>_. False"]
  by (simp add: required_isna)

text \<open>
  Claim C6. When the batch has all eight mandatory columns, \<^verbatim>\<open>rule_mandatory\<close>
  reports exactly the rows with a null in one of them, each once, in row order; when a
  mandatory column is absent from the batch, it reports every row; and every breach it
  returns is an R001_MANDATORY breach of severity CRITICAL.
\<close>

theorem mandatory_breaches:
  "(set required \<subseteq> set (columns df) \<longrightarrow>
      map row_index (rule_mandatory df) = filter (\<lambda>i. any_mandatory_null (rows df ! i)) (index df))
   \<and> (\<forall>c. c \<in> set required \<and> c \<notin> set (columns df) \<longrightarrow>
      map row_index (rule_mandatory df) = index df)
   \<and> (\<forall>b \<in> set (rule_mandatory df). rule_id b = ''R001_MANDATORY'' \<and> severity b = ''CRITICAL'')"
proof -
  have present: "map row_index (rule_mandatory df)
                 = filter (\<lambda>i. any_mandatory_null (rows df ! i)) (index df)"
    if "set required \<subseteq> set (columns df)"
    using that by (simp add: rule_mandatory_def map_row_index_breaches_df mandatory_idx)
  have absent: "map row_index (rule_mandatory df) = index df"
    if "c \<in> set required \<and> c \<notin> set (columns df)" for c
  proof -
    from that have "\<not> set required \<subseteq> set (columns df)" by auto
    then show ?thesis
      by (simp add: rule_mandatory_def map_row_index_breaches_df mandatory_idx)
  qed
  have tagged: "rule_id b = ''R001_MANDATORY'' \<and> severity b = ''CRITICAL''"
    if "b \<in> set (rule_mandatory df)" for b
    using that by (auto simp: rule_mandatory_def breaches_df_def Let_def split: if_splits)
  from present absent tagged show ?thesis by blast
qed

text \<open>
  With all columns present only the row without a side is reported; without the price
  column both rows are, though neither has a null.
\<close>

theorem mandatory_breaches_witness:
  "map row_index (rule_mandatory ex_one_null) = [1]
   \<and> map row_index (rule_mandatory ex_no_price) = [0, 1]"
proof -
  have 1: "map row_index (rule_mandatory ex_one_null) = [1]"
    using mandatory_breaches[of ex_one_null]
    by (simp add: ex_one_null_def required_def CANONICAL_ORDER_def index_def
          any_mandatory_null_def ex_trade_def null_row_def)
  have "''price'' \<in> set required \<and> ''price'' \<notin> set (columns ex_no_price)"
    by (simp add: required_def ex_no_price_def CANONICAL_ORDER_def)
  with mandatory_breaches[of ex_no_price]
  have "map row_index (rule_mandatory ex_no_price) = index ex_no_price"
    by blast
  then have 2: "map row_index (rule_mandatory ex_no_price) = [0, 1]"
    by (simp add: index_def ex_no_price_def)
  from 1 2 show ?thesis by simp
qed

section \<open>The orchestrator\<close>


lemma index_union_Nil_Nil: "index_union [] [] = []"
  by (simp add: index_union_def)



lemma run_validation_Inr:
  "run_validation fmul bad_order df =
     Inr \<lparr>df_passed = select (map (\<lambda>i. i \<notin> row_index ` set (run_all_rules fmul bad_order df)) (index df))
                         (zip (index df) (rows df)),
          df_failed = select (map (\<lambda>i. i \<in> row_index ` set (run_all_rules fmul bad_order df)) (index df))
                         (zip (index df) (rows df)),
          breaches = run_all_rules fmul bad_order df,
          metrics = \<lparr>input_rows = length (rows df),
             passed_rows = length (select (map (\<lambda>i. i \<notin> row_index ` set (run_all_rules fmul bad_order df)) (index df))
                         (zip (index df) (rows df))),
             failed_rows = length (select (map (\<lambda>i. i \<in> row_index ` set (run_all_rules fmul bad_order df)) (index df))
                         (zip (index df) (rows df))),
             breach_count = length (run_all_rules fmul bad_order df),
             pass_rate_pct = round2 (100 * real (length (select (map (\<lambda>i. i \<notin> row_index ` set (run_all_rules fmul bad_order df)) (index df))
                         (zip (index df) (rows df)))) / real (max 1 (length (rows df))))\<rparr>\<rparr>"
proof -
  have idx: "(if length (run_all_rules fmul bad_order df) \<noteq> 0
              then set (map row_index (run_all_rules fmul bad_order df)) else {})
             = row_index ` set (run_all_rules fmul bad_order df)"
    by auto
  have nz: "real (max 1 (length (rows df))) \<noteq> 0" by simp
  show ?thesis
    unfolding run_validation_def Let_def idx truediv_def
    using nz by (simp add: o_def)
qed


lemma select_zip: "select (map c xs) (zip xs ys) = filter (\<lambda>p. c (fst p)) (zip xs ys)"
proof (induction xs arbitrary: ys)
  case Nil
  then show ?case by (simp add: select_def)
next
  case (Cons x xs)
  then show ?case by (cases ys) (auto simp: select_def)
qed

lemma zip_index: "zip [0..<length ys] ys = map (\<lambda>i. (i, ys ! i)) [0..<length ys]"
  by (rule nth_equalityI) auto

lemma select_index:
  "select (map c (index df)) (zip (index df) (rows df))
     = map (\<lambda>i. (i, rows df ! i)) (filter c (index df))"
proof -
  have "select (map c (index df)) (zip (index df) (rows df))
          = filter (\<lambda>p. c (fst p)) (zip (index df) (rows df))"
    by (rule select_zip)
  also have "\<dots> = filter (\<lambda>p. c (fst p)) (map (\<lambda>i. (i, rows df ! i)) (index df))"
    by (simp only: index_def zip_index)
  also have "\<dots> = map (\<lambda>i. (i, rows df ! i)) (filter c (index df))"
    by (simp add: filter_map o_def)
  finally show ?thesis .
qed

text \<open>
  Claim C3. Validation splits the batch in two: the passed part is the rows whose label is in
  no breach of the battery, the failed part is the rows whose label is in one, both in row
  order with their labels. No label is in both parts, the sizes add up to the size of the
  batch, and the split is a function of the set of breached labels: rewriting the severity
  of every breach leaves it as it is.
\<close>

theorem validation_partition:
  "\<exists>res. run_validation fmul bad_order df = Inr res
     \<and> breaches res = run_all_rules fmul bad_order df
     \<and> df_passed res = passed_of (row_index ` set (breaches res)) df
     \<and> df_failed res = failed_of (row_index ` set (breaches res)) df
     \<and> (\<forall>s. df_passed res = passed_of (row_index ` set (map (\<lambda>b. b\<lparr>severity := s b\<rparr>) (breaches res))) df)
     \<and> fst ` set (df_passed res) \<inter> fst ` set (df_failed res) = {}
     \<and> length (df_passed res) + length (df_failed res) = length (rows df)"
proof -
  let ?refs = "row_index ` set (run_all_rules fmul bad_order df)"
  have sev: "row_index ` (\<lambda>b. b\<lparr>severity := s b\<rparr>) ` B = row_index ` B" for s and B :: "breach set"
    by (simp add: image_image)
  have disj: "fst ` set (passed_of ?refs df) \<inter> fst ` set (failed_of ?refs df) = {}"
    by (auto simp: passed_of_def failed_of_def)
  have len: "length (passed_of ?refs df) + length (failed_of ?refs df) = length (rows df)"
    using sum_length_filter_compl[of "\<lambda>i. i \<in> ?refs" "index df"]
    by (simp add: passed_of_def failed_of_def index_def)
  show ?thesis
    using disj len
    by (simp add: run_validation_Inr select_index passed_of_def[symmetric] failed_of_def[symmetric] sev)
qed

lemma ex_low_breaches:
  "map (\<lambda>b. (rule_id b, severity b, row_index b)) (run_all_rules (*) (\<lambda>_ _. False) ex_low)
     = [(''R006_NOTIONAL'', ''LOW'', 1)]"
  by (simp add: run_all_rules_concat rule_defs ex_low_def ex_trade_def null_row_def)

text \<open>The single LOW breach puts the second trade in the failed part; the first passes.\<close>

theorem validation_partition_witness:
  "\<exists>res. run_validation (*) (\<lambda>_ _. False) ex_low = Inr res
      \<and> map severity (breaches res) = [''LOW'']
      \<and> map fst (df_passed res) = [0]
      \<and> map fst (df_failed res) = [1]"
proof -
  from validation_partition[of "(*)" "\<lambda>_ _. False" ex_low]
  obtain res where run: "run_validation (*) (\<lambda>_ _. False) ex_low = Inr res"
    and bs: "breaches res = run_all_rules (*) (\<lambda>_ _. False) ex_low"
    and p: "df_passed res = passed_of (row_index ` set (breaches res)) ex_low"
    and f: "df_failed res = failed_of (row_index ` set (breaches res)) ex_low"
    by blast
  from ex_low_breaches bs
  have m: "map (\<lambda>b. (rule_id b, severity b, row_index b)) (breaches res)
           = [(''R006_NOTIONAL'', ''LOW'', 1)]"
    by simp
  then obtain b where b: "breaches res = [b]" "severity b = ''LOW''" "row_index b = 1"
    by auto
  then have refs: "row_index ` set (breaches res) = {1}" by simp
  have "map fst (df_passed res) = [0]" "map fst (df_failed res) = [1]"
    by (simp_all add: p f refs passed_of_def failed_of_def index_def ex_low_def o_def)
  with run b show ?thesis by simp
qed




section \<open>Row count and row identity through enrichment\<close>





lemma row_identity_attach_pm [simp]: "row_identity (attach_pm r m) = row_identity r"
  by (simp add: row_identity_def attach_pm_def)

lemma row_identity_set_cusip_values [simp]: "row_identity (set_cusip_values r v) = row_identity r"
  by (cases v) (simp add: row_identity_def set_cusip_values_def)

lemma row_identity_attach_cm [simp]: "row_identity (attach_cm a b c d r m) = row_identity r"
  by (simp add: row_identity_def attach_cm_def Let_def)

lemma need_attach_pm [simp]:
  "symbol (attach_pm r m) = symbol r" "cusip (attach_pm r m) = cusip r"
  by (simp_all add: attach_pm_def)











section \<open>What the first merge does with the reference symbol\<close>

text \<open>
  Claim C1 says that a row takes the symbol and the instrument type of the product entry its
  ISIN matches. The code does not do that. A trade identified by its ISIN only, with no
  symbol and no instrument type of its own, matches an entry with symbol AAPL and type BOND;
  after \<^verbatim>\<open>_enrich_product\<close> its symbol and instrument type are still null, and the
  reference values sit in the columns \<^verbatim>\<open>symbol_pm\<close> and
  \<^verbatim>\<open>instrument_type_pm\<close>, which nothing reads.
\<close>

theorem isin_reference_unused:
  "map_sum id (map (\<lambda>r. (symbol r, instrument_type r, symbol_pm r, instrument_type_pm r)) \<circ> rows)
     (enrich_product [null_row\<lparr>trade_id := Some ''T1'', isin := Some ''US0378331005''\<rparr>] [ex_product])
   = Inr [(None, None, Some ''AAPL'', Some ''BOND'')]"
  by (simp add: enrich_defs null_row_def ex_product_def)

end
